theory Spec2Isabelle
  imports Main "HOL-Library.Word"
begin

section \<open>Go values used by matrix.go\<close>

text \<open>
  Go's \<open>int\<close> is a signed machine integer whose arithmetic wraps around; it is taken at
  its 64-bit width. Comparisons are the signed ones (\<open>word_sless\<close>, \<open>word_sle\<close>),
  \<open>sint\<close> reads the value.
\<close>

type_synonym goint = "64 word"

text \<open>
  A run-time panic ends the call; it is a value of the model. \<open>NilPointerDereference\<close>
  is a field access through a nil pointer, \<open>NilInterfaceCall\<close> a method call on a nil
  interface value, \<open>IndexOutOfRange\<close> a slice index outside \<open>[0, len)\<close>,
  \<open>MakeOutOfRange\<close> a negative length or capacity given to \<open>make\<close>, and
  \<open>MethodPanic\<close> a panic raised inside a method of an element.
\<close>

datatype panic =
    NilPointerDereference
  | NilInterfaceCall
  | IndexOutOfRange
  | MakeOutOfRange
  | MethodPanic

text \<open>An \<open>error\<close> made by \<open>errors.New\<close> is its message; \<open>None\<close> is the nil error.\<close>

type_synonym error = string

text \<open>
  \<open>VecNum\<close> is an interface: a value of it is nil (\<open>None\<close>) or holds a concrete number
  (\<open>Some x\<close>). The declarations of \<open>VecNum\<close>, \<open>VecType\<close> and \<open>checkType\<close> are not in
  matrix.go, so the concrete numbers \<open>'a\<close>, the type tags \<open>'t\<close>, the three methods and
  \<open>checkType\<close> are parameters of the model. A method receives the interface value of
  its argument and returns an interface value, or panics. \<open>zeroType\<close> is the zero value
  of \<open>VecType\<close>.
\<close>

type_synonym 'a VecNum = "'a option"

record ('t, 'a) VecOps =
  checkType :: "'t \<Rightarrow> 'a VecNum \<Rightarrow> bool"
  add :: "'a \<Rightarrow> 'a VecNum \<Rightarrow> panic + 'a VecNum"
  sub :: "'a \<Rightarrow> 'a VecNum \<Rightarrow> panic + 'a VecNum"
  mul :: "'a \<Rightarrow> 'a VecNum \<Rightarrow> panic + 'a VecNum"
  zeroType :: "'t"

text \<open>
  The struct \<open>Matrix\<close>. Its fields \<open>m\<close>, \<open>n\<close>, \<open>typ\<close>, \<open>dat\<close> carry the prefix \<open>mat_\<close>
  here, so that \<open>m\<close> and \<open>n\<close> stay usable as variables. A slice is the list of its
  elements; the nil slice is the empty list.
\<close>

record ('t, 'a) Matrix =
  mat_m :: goint
  mat_n :: goint
  mat_typ :: "'t"
  mat_dat :: "'a VecNum list"

text \<open>The zero value of \<open>Matrix\<close>: what a bare \<open>return\<close> of a named result gives.\<close>

definition zeroMatrix :: "('t, 'a) VecOps \<Rightarrow> ('t, 'a) Matrix" where
  "zeroMatrix ops = \<lparr>mat_m = 0, mat_n = 0, mat_typ = zeroType ops, mat_dat = []\<rparr>"

subsection \<open>Sequencing, pointers, slices\<close>

text \<open>Run \<open>f\<close> on the value of \<open>x\<close>, unless \<open>x\<close> panicked.\<close>

definition andThen :: "panic + 'x \<Rightarrow> ('x \<Rightarrow> panic + 'y) \<Rightarrow> panic + 'y" where
  "andThen x f = (case x of Inl p \<Rightarrow> Inl p | Inr v \<Rightarrow> f v)"

text \<open>A pointer is nil (\<open>None\<close>) or points to a value. \<open>through p f\<close> is an assignment
  \<open>p.field = ...\<close>: it panics on the nil pointer and otherwise updates the value.\<close>

definition deref :: "'x option \<Rightarrow> panic + 'x" where
  "deref p = (case p of None \<Rightarrow> Inl NilPointerDereference | Some v \<Rightarrow> Inr v)"

definition through :: "'x option \<Rightarrow> ('x \<Rightarrow> 'x) \<Rightarrow> panic + 'x option" where
  "through p f = andThen (deref p) (\<lambda>v. Inr (Some (f v)))"

definition len :: "'x list \<Rightarrow> goint" where
  "len xs = of_nat (length xs)"

text \<open>\<open>xs[i]\<close> read and written: a panic outside \<open>[0, len xs)\<close>.\<close>

definition inRange :: "'x list \<Rightarrow> goint \<Rightarrow> bool" where
  "inRange xs i \<longleftrightarrow> 0 \<le> sint i \<and> sint i < int (length xs)"

definition index :: "'x list \<Rightarrow> goint \<Rightarrow> panic + 'x" where
  "index xs i = (if inRange xs i then Inr (xs ! nat (sint i)) else Inl IndexOutOfRange)"

definition store :: "'x list \<Rightarrow> goint \<Rightarrow> 'x \<Rightarrow> panic + 'x list" where
  "store xs i v = (if inRange xs i then Inr (xs[nat (sint i) := v]) else Inl IndexOutOfRange)"

text \<open>\<open>make([]VecNum, l)\<close> gives \<open>l\<close> nil interface values; \<open>make([]VecNum, 0, c)\<close> is
  empty. A negative size panics. The memory limit of the machine is not modelled.\<close>

definition make :: "goint \<Rightarrow> panic + 'a VecNum list" where
  "make l = (if sint l < 0 then Inl MakeOutOfRange else Inr (replicate (nat (sint l)) None))"

definition makeCap :: "goint \<Rightarrow> panic + 'a VecNum list" where
  "makeCap c = (if sint c < 0 then Inl MakeOutOfRange else Inr [])"

subsection \<open>Counting loops\<close>

text \<open>
  A loop body either falls through to the next round with a new state, or leaves the
  function with its results. \<open>forUpto b body s\<close> is
  \<open>for i := 0; i < b; i++ { body }\<close> for a bound \<open>b\<close> the body does not change: the
  counter runs through \<open>0, 1, ...\<close> below \<open>b\<close> and cannot overflow.
\<close>

datatype ('r, 's) flow = Return 'r | Next 's

fun forRange :: "nat list \<Rightarrow> (goint \<Rightarrow> 's \<Rightarrow> panic + ('r, 's) flow) \<Rightarrow> 's \<Rightarrow> panic + ('r, 's) flow" where
  "forRange [] body s = Inr (Next s)"
| "forRange (k # ks) body s =
     (case body (of_nat k) s of
        Inl p \<Rightarrow> Inl p
      | Inr (Return r) \<Rightarrow> Inr (Return r)
      | Inr (Next s') \<Rightarrow> forRange ks body s')"

definition forUpto :: "goint \<Rightarrow> (goint \<Rightarrow> 's \<Rightarrow> panic + ('r, 's) flow) \<Rightarrow> 's \<Rightarrow> panic + ('r, 's) flow" where
  "forUpto b body s = forRange [0..<nat (sint b)] body s"

section \<open>Constructors\<close>


text \<open>
  The other four constructors have the named results \<open>(mat *Matrix, err error)\<close>. A
  named result starts at its zero value, so \<open>mat\<close> is the nil pointer when the body
  starts, and no statement of a body allocates a \<open>Matrix\<close>. Each body below is written
  for any starting pointer \<open>mat0\<close>; the constructor is the body started at \<open>None\<close>.
  The result is the pair that Go returns.
\<close>

type_synonym ('t, 'a) built = "('t, 'a) Matrix option \<times> error option"

definition finish ::
  "(('t, 'a) built, ('t, 'a) Matrix option) flow \<Rightarrow> panic + ('t, 'a) built" where
  "finish fl = (case fl of Return r \<Rightarrow> Inr r | Next mat \<Rightarrow> Inr (mat, None))"

definition MatrixFromCols_body ::
  "('t, 'a) VecOps \<Rightarrow> 't \<Rightarrow> 'a VecNum list list \<Rightarrow> ('t, 'a) Matrix option
     \<Rightarrow> panic + ('t, 'a) built" where
  "MatrixFromCols_body ops typ el mat0 =
     andThen (through mat0 (\<lambda>M. M\<lparr>mat_typ := typ\<rparr>)) (\<lambda>mat1.
     andThen (through mat1 (\<lambda>M. M\<lparr>mat_m := len el\<rparr>)) (\<lambda>mat2.
     andThen (index el 0) (\<lambda>el0.
     andThen (through mat2 (\<lambda>M. M\<lparr>mat_n := len el0\<rparr>)) (\<lambda>mat3.
     andThen (deref mat3) (\<lambda>M.
     andThen (makeCap (mat_m M * mat_n M)) (\<lambda>d.
     andThen (through mat3 (\<lambda>M. M\<lparr>mat_dat := d\<rparr>)) (\<lambda>mat4.
     andThen (forUpto (mat_n M) (\<lambda>i.
              forUpto (mat_m M) (\<lambda>j mat.
                andThen (deref mat) (\<lambda>M.
                andThen (index el j) (\<lambda>elj.
                andThen (index elj i) (\<lambda>e.
                  if \<not> checkType ops (mat_typ M) e
                  then Inr (Return (None, Some ''Element type does not match matrix''))
                  else andThen (through mat (\<lambda>M. M\<lparr>mat_dat := mat_dat M @ [e]\<rparr>)) (\<lambda>mat'.
                       Inr (Next mat'))))))) mat4)
       finish)))))))"

definition MatrixFromCols ::
  "('t, 'a) VecOps \<Rightarrow> 't \<Rightarrow> 'a VecNum list list \<Rightarrow> panic + ('t, 'a) built" where
  "MatrixFromCols ops typ el = MatrixFromCols_body ops typ el None"

definition MatrixFromRows_body ::
  "('t, 'a) VecOps \<Rightarrow> 't \<Rightarrow> 'a VecNum list list \<Rightarrow> ('t, 'a) Matrix option
     \<Rightarrow> panic + ('t, 'a) built" where
  "MatrixFromRows_body ops typ el mat0 =
     andThen (through mat0 (\<lambda>M. M\<lparr>mat_typ := typ\<rparr>)) (\<lambda>mat1.
     andThen (through mat1 (\<lambda>M. M\<lparr>mat_m := len el\<rparr>)) (\<lambda>mat2.
     andThen (index el 0) (\<lambda>el0.
     andThen (through mat2 (\<lambda>M. M\<lparr>mat_n := len el0\<rparr>)) (\<lambda>mat3.
     andThen (deref mat3) (\<lambda>M.
     andThen (makeCap (mat_m M * mat_n M)) (\<lambda>d.
     andThen (through mat3 (\<lambda>M. M\<lparr>mat_dat := d\<rparr>)) (\<lambda>mat4.
     andThen (forUpto (mat_m M) (\<lambda>i.
              forUpto (mat_n M) (\<lambda>j mat.
                andThen (deref mat) (\<lambda>M.
                andThen (index el j) (\<lambda>elj.
                andThen (index elj i) (\<lambda>e.
                  if \<not> checkType ops (mat_typ M) e
                  then Inr (Return (None, Some ''Element type does not match matrix''))
                  else andThen (through mat (\<lambda>M. M\<lparr>mat_dat := mat_dat M @ [e]\<rparr>)) (\<lambda>mat'.
                       Inr (Next mat'))))))) mat4)
       finish)))))))"

definition MatrixFromRows ::
  "('t, 'a) VecOps \<Rightarrow> 't \<Rightarrow> 'a VecNum list list \<Rightarrow> panic + ('t, 'a) built" where
  "MatrixFromRows ops typ el = MatrixFromRows_body ops typ el None"

text \<open>\<open>for _, e := range el\<close> with the type check of \<open>MatrixFromSlice\<close>: false as soon
  as one element fails \<open>checkType\<close>.\<close>

fun allChecked :: "('t, 'a) VecOps \<Rightarrow> 't \<Rightarrow> 'a VecNum list \<Rightarrow> bool" where
  "allChecked ops t [] = True"
| "allChecked ops t (e # es) = (if \<not> checkType ops t e then False else allChecked ops t es)"

definition MatrixFromSlice_body ::
  "('t, 'a) VecOps \<Rightarrow> 't \<Rightarrow> 'a VecNum list \<Rightarrow> goint \<Rightarrow> goint \<Rightarrow> ('t, 'a) Matrix option
     \<Rightarrow> panic + ('t, 'a) built" where
  "MatrixFromSlice_body ops typ el m n mat0 =
     andThen (through mat0 (\<lambda>M. M\<lparr>mat_typ := typ\<rparr>)) (\<lambda>mat1.
     andThen (through mat1 (\<lambda>M. M\<lparr>mat_m := m\<rparr>)) (\<lambda>mat2.
     andThen (through mat2 (\<lambda>M. M\<lparr>mat_n := n\<rparr>)) (\<lambda>mat3.
     andThen (deref mat3) (\<lambda>M.
       if mat_m M * mat_n M \<noteq> len el
       then Inr (None, Some ''Matrix dimensions do not match data passed in'')
       else if \<not> allChecked ops (mat_typ M) el
       then Inr (None, Some ''Type of at least one element does not match declared type'')
       else andThen (through mat3 (\<lambda>M. M\<lparr>mat_dat := el\<rparr>)) (\<lambda>mat4.
            Inr (mat4, None))))))"

definition MatrixFromSlice ::
  "('t, 'a) VecOps \<Rightarrow> 't \<Rightarrow> 'a VecNum list \<Rightarrow> goint \<Rightarrow> goint \<Rightarrow> panic + ('t, 'a) built" where
  "MatrixFromSlice ops typ el m n = MatrixFromSlice_body ops typ el m n None"

definition unsafeMatrixFromSlice_body ::
  "'t \<Rightarrow> 'a VecNum list \<Rightarrow> goint \<Rightarrow> goint \<Rightarrow> ('t, 'a) Matrix option
     \<Rightarrow> panic + ('t, 'a) built" where
  "unsafeMatrixFromSlice_body typ el m n mat0 =
     andThen (through mat0 (\<lambda>M. M\<lparr>mat_typ := typ\<rparr>)) (\<lambda>mat1.
     andThen (through mat1 (\<lambda>M. M\<lparr>mat_m := m\<rparr>)) (\<lambda>mat2.
     andThen (through mat2 (\<lambda>M. M\<lparr>mat_n := n\<rparr>)) (\<lambda>mat3.
     andThen (through mat3 (\<lambda>M. M\<lparr>mat_dat := el\<rparr>)) (\<lambda>mat4.
       Inr (mat4, None)))))"

definition unsafeMatrixFromSlice ::
  "'t \<Rightarrow> 'a VecNum list \<Rightarrow> goint \<Rightarrow> goint \<Rightarrow> panic + ('t, 'a) built" where
  "unsafeMatrixFromSlice typ el m n = unsafeMatrixFromSlice_body typ el m n None"

section \<open>Element access\<close>

text \<open>
  \<open>SetElement\<close> has a pointer receiver and writes into the matrix it points to: the
  model takes that matrix (the receiver is not nil) and returns the returned error with
  the matrix afterwards.
\<close>

definition SetElement ::
  "('t, 'a) VecOps \<Rightarrow> ('t, 'a) Matrix \<Rightarrow> goint \<Rightarrow> goint \<Rightarrow> 'a VecNum
     \<Rightarrow> panic + (error option \<times> ('t, 'a) Matrix)" where
  "SetElement ops mat i j el =
     (if i <s mat_m mat \<or> j <s mat_n mat
      then Inr (Some ''Dimensions out of bounds'', mat)
      else if \<not> checkType ops (mat_typ mat) el
      then Inr (Some ''Type of element does not match matrix's type'', mat)
      else andThen (store (mat_dat mat) (mat_m mat * j + i) el) (\<lambda>d.
           Inr (None, mat\<lparr>mat_dat := d\<rparr>)))"

section \<open>Arithmetic\<close>

text \<open>A method call on an interface value: a panic on nil, the method otherwise.\<close>

definition call ::
  "('a \<Rightarrow> 'a VecNum \<Rightarrow> panic + 'a VecNum) \<Rightarrow> 'a VecNum \<Rightarrow> 'a VecNum \<Rightarrow> panic + 'a VecNum" where
  "call meth recv arg = (case recv of None \<Rightarrow> Inl NilInterfaceCall | Some x \<Rightarrow> meth x arg)"

text \<open>A counting loop whose body has no \<open>return\<close>.\<close>

fun loopRange :: "nat list \<Rightarrow> (goint \<Rightarrow> 's \<Rightarrow> panic + 's) \<Rightarrow> 's \<Rightarrow> panic + 's" where
  "loopRange [] body s = Inr s"
| "loopRange (k # ks) body s =
     (case body (of_nat k) s of Inl p \<Rightarrow> Inl p | Inr s' \<Rightarrow> loopRange ks body s')"

definition loopUpto :: "goint \<Rightarrow> (goint \<Rightarrow> 's \<Rightarrow> panic + 's) \<Rightarrow> 's \<Rightarrow> panic + 's" where
  "loopUpto b body s = loopRange [0..<nat (sint b)] body s"

text \<open>
  In \<open>Add\<close> and \<open>Sub\<close> the named result \<open>m3\<close> starts as the zero \<open>Matrix\<close>; the
  body assigns \<open>m3.typ\<close> and \<open>m3.dat\<close> and nothing else.
  \<open>for i := range m1.dat\<close> counts through the indices of \<open>m1.dat\<close>.
\<close>

definition Add ::
  "('t, 'a) VecOps \<Rightarrow> ('t, 'a) Matrix \<Rightarrow> ('t, 'a) Matrix \<Rightarrow> panic + ('t, 'a) Matrix" where
  "Add ops m1 m2 =
     (if mat_typ m1 \<noteq> mat_typ m2 \<or> len (mat_dat m1) \<noteq> len (mat_dat m2)
      then Inr (zeroMatrix ops)
      else andThen (make (len (mat_dat m1))) (\<lambda>d0.
           andThen (loopRange [0..<length (mat_dat m1)] (\<lambda>i d.
                      andThen (index (mat_dat m1) i) (\<lambda>x.
                      andThen (index (mat_dat m2) i) (\<lambda>y.
                      andThen (call (add ops) x y) (\<lambda>r.
                        store d i r)))) d0) (\<lambda>d.
             Inr ((zeroMatrix ops)\<lparr>mat_typ := mat_typ m1, mat_dat := d\<rparr>))))"

definition Sub ::
  "('t, 'a) VecOps \<Rightarrow> ('t, 'a) Matrix \<Rightarrow> ('t, 'a) Matrix \<Rightarrow> panic + ('t, 'a) Matrix" where
  "Sub ops m1 m2 =
     (if mat_typ m1 \<noteq> mat_typ m2 \<or> len (mat_dat m1) \<noteq> len (mat_dat m2)
      then Inr (zeroMatrix ops)
      else andThen (make (len (mat_dat m1))) (\<lambda>d0.
           andThen (loopRange [0..<length (mat_dat m1)] (\<lambda>i d.
                      andThen (index (mat_dat m1) i) (\<lambda>x.
                      andThen (index (mat_dat m2) i) (\<lambda>y.
                      andThen (call (sub ops) x y) (\<lambda>r.
                        store d i r)))) d0) (\<lambda>d.
             Inr ((zeroMatrix ops)\<lparr>mat_typ := mat_typ m1, mat_dat := d\<rparr>))))"

text \<open>
  One round of the innermost loop of \<open>Mul\<close>,
  \<open>dat[j*m2.n+i] = dat[j*m2.n+i].add(m1.dat[k*m1.n+i].mul(m2.dat[j*m2.n+k]))\<close>.
  Go fixes the order of the two calls (\<open>mul\<close> before \<open>add\<close>, whose argument it is) and
  leaves the place of the three index reads open. The model reads the operands of a
  call just before the call: the operands of \<open>mul\<close>, the call of \<open>mul\<close>, the
  accumulator, the call of \<open>add\<close>, the store. Another order can only change which
  panic comes first when two of the steps panic.
\<close>

definition accumulate ::
  "('t, 'a) VecOps \<Rightarrow> ('t, 'a) Matrix \<Rightarrow> ('t, 'a) Matrix \<Rightarrow> goint \<Rightarrow> goint \<Rightarrow> goint
     \<Rightarrow> 'a VecNum list \<Rightarrow> panic + 'a VecNum list" where
  "accumulate ops m1 m2 j i k dat =
     andThen (index (mat_dat m1) (k * mat_n m1 + i)) (\<lambda>x.
     andThen (index (mat_dat m2) (j * mat_n m2 + k)) (\<lambda>y.
     andThen (call (mul ops) x y) (\<lambda>p.
     andThen (index dat (j * mat_n m2 + i)) (\<lambda>acc.
     andThen (call (add ops) acc p) (\<lambda>r.
       store dat (j * mat_n m2 + i) r)))))"

definition Mul ::
  "('t, 'a) VecOps \<Rightarrow> ('t, 'a) Matrix \<Rightarrow> ('t, 'a) Matrix \<Rightarrow> panic + ('t, 'a) Matrix" where
  "Mul ops m1 m2 =
     (if mat_n m1 \<noteq> mat_m m2 \<or> mat_typ m1 \<noteq> mat_typ m2
      then Inr (zeroMatrix ops)
      else andThen (make (mat_m m1 * mat_n m2)) (\<lambda>dat0.
           andThen (loopUpto (mat_n m2) (\<lambda>j.
                    loopUpto (mat_m m1) (\<lambda>i.
                    loopUpto (mat_n m1) (\<lambda>k.
                      accumulate ops m1 m2 j i k))) dat0) (\<lambda>dat.
           andThen (unsafeMatrixFromSlice (mat_typ m1) dat (mat_m m1) (mat_n m2)) (\<lambda>(mat, err).
             if err \<noteq> None then Inr (zeroMatrix ops) else deref mat))))"

text \<open>
  \<open>BatchMultiply\<close> hands the two halves of a longer sequence to two goroutines and
  receives the left result, then the right one. Each goroutine works on its own
  sub-slice and sends one matrix, so the value received is the value of the recursive
  call; a panic in a goroutine ends the program, which the model reports as the panic of
  the call (the left half's first).
\<close>

function BatchMultiply ::
  "('t, 'a) VecOps \<Rightarrow> ('t, 'a) Matrix list \<Rightarrow> panic + ('t, 'a) Matrix" where
  "BatchMultiply ops args =
     (if length args = 1 then index args 0
      else if length args > 2 then
        (case BatchMultiply ops (take (length args div 2) args) of
           Inl p \<Rightarrow> Inl p
         | Inr m1 \<Rightarrow>
            (case BatchMultiply ops (drop (length args div 2) args) of
               Inl p \<Rightarrow> Inl p
             | Inr m2 \<Rightarrow> Mul ops m1 m2))
      else andThen (index args 0) (\<lambda>m1.
           andThen (index args 1) (\<lambda>m2.
             Mul ops m1 m2)))"
  by pat_completeness auto
termination
  by (relation "measure (\<lambda>(ops, args). length args)") auto

text \<open>The left-to-right sequential product \<open>Mul (... (Mul (Mul A B) C) ...) Z\<close>.\<close>

fun mulFrom ::
  "('t, 'a) VecOps \<Rightarrow> ('t, 'a) Matrix \<Rightarrow> ('t, 'a) Matrix list \<Rightarrow> panic + ('t, 'a) Matrix" where
  "mulFrom ops acc [] = Inr acc"
| "mulFrom ops acc (b # bs) = andThen (Mul ops acc b) (\<lambda>c. mulFrom ops c bs)"

text \<open>Every adjacent pair of the sequence passes the check of \<open>Mul\<close>.\<close>

fun compatible :: "('t, 'a) Matrix list \<Rightarrow> bool" where
  "compatible (a # b # rest) \<longleftrightarrow>
     mat_n a = mat_m b \<and> mat_typ a = mat_typ b \<and> compatible (b # rest)"
| "compatible _ \<longleftrightarrow> True"

section \<open>An instance of the element type system\<close>

text \<open>
  Modelled from the spec: the element types, which matrix.go uses and does not declare
  (\<open>VecType\<close>, \<open>VecNum\<close> with \<open>add\<close>, \<open>sub\<close>, \<open>mul\<close>, and \<open>checkType\<close>). The instance has
  an integer variant of 32 bits beside a floating tag without values; \<open>checkType\<close> is
  the spec's \<open>matches\<close>, and a method panics on a nil argument.
\<close>

datatype vecType = NoType | Int32 | Float32

definition int32Method :: "(32 word \<Rightarrow> 32 word \<Rightarrow> 32 word) \<Rightarrow> 32 word \<Rightarrow> 32 word VecNum \<Rightarrow> panic + 32 word VecNum" where
  "int32Method f x arg = (case arg of None \<Rightarrow> Inl MethodPanic | Some y \<Rightarrow> Inr (Some (f x y)))"

definition int32Ops :: "(vecType, 32 word) VecOps" where
  "int32Ops = \<lparr>checkType = (\<lambda>t e. t = Int32 \<and> e \<noteq> None),
               add = int32Method (+), sub = int32Method (-), mul = int32Method (*),
               zeroType = NoType\<rparr>"

text \<open>The 2 x 2 matrix of the header comment, \<open>[1, 1]\<close> over \<open>[0, 1]\<close>, in row-major order.\<close>

definition shear :: "(vecType, 32 word) Matrix" where
  "shear = \<lparr>mat_m = 2, mat_n = 2, mat_typ = Int32, mat_dat = [Some 1, Some 1, Some 0, Some 1]\<rparr>"





section \<open>Properties\<close>

declare BatchMultiply.simps [simp del]

subsection \<open>Sequencing and loops\<close>

lemma through_nil: "through None f = Inl NilPointerDereference"
  by (simp add: through_def deref_def andThen_def)

lemma andThen_panic: "andThen (Inl p) f = Inl p"
  by (simp add: andThen_def)

lemma andThen_value: "andThen (Inr v) f = f v"
  by (simp add: andThen_def)



subsection \<open>Machine arithmetic of the flat offset\<close>

lemma signed_take_bit_add_left:
  "signed_take_bit n (signed_take_bit n x + c) = signed_take_bit n (x + (c::int))"
proof -
  have "signed_take_bit n (signed_take_bit n x + c)
        = signed_take_bit n (signed_take_bit n (signed_take_bit n x) + signed_take_bit n c)"
    by (simp only: signed_take_bit_add)
  also have "\<dots> = signed_take_bit n (signed_take_bit n x + signed_take_bit n c)"
    by simp
  also have "\<dots> = signed_take_bit n (x + c)"
    by (simp only: signed_take_bit_add)
  finally show ?thesis .
qed

text \<open>\<open>a * b + c\<close> on machine integers is the number \<open>a * b + c\<close> when that fits.\<close>

lemma sint_mult_add:
  fixes a b c :: goint
  assumes "- (2 ^ 63) \<le> sint a * sint b + sint c" and "sint a * sint b + sint c < 2 ^ 63"
  shows "sint (a * b + c) = sint a * sint b + sint c"
proof -
  have "sint (a * b + c) = signed_take_bit 63 (sint a * sint b + sint c)"
    by (simp add: sint_word_ariths signed_take_bit_add_left)
  also have "\<dots> = sint a * sint b + sint c"
    using assms by (simp add: signed_take_bit_int_eq_self)
  finally show ?thesis .
qed

lemma offset_beyond:
  fixes M N I J L :: int
  assumes "0 < M" and "L = M * N" and "M \<le> I" and "N \<le> J"
  shows "L < M * J + I"
proof -
  have "M * N \<le> M * J" using assms by (simp add: mult_left_mono)
  then show ?thesis using assms by linarith
qed

subsection \<open>What the constructors would do with an allocated result\<close>

lemma unsafeMatrixFromSlice_nil: "unsafeMatrixFromSlice typ el m n = Inl NilPointerDereference"
  by (simp add: unsafeMatrixFromSlice_def unsafeMatrixFromSlice_body_def through_nil
      andThen_panic)

text \<open>Started at an allocated matrix, the body of \<open>MatrixFromSlice\<close> validates and
  builds: the allocation is all that is missing.\<close>

lemma MatrixFromSlice_body_allocated:
  "MatrixFromSlice_body ops typ el m n (Some M0) =
     Inr (if m * n \<noteq> len el
          then (None, Some ''Matrix dimensions do not match data passed in'')
          else if \<not> allChecked ops typ el
          then (None, Some ''Type of at least one element does not match declared type'')
          else (Some \<lparr>mat_m = m, mat_n = n, mat_typ = typ, mat_dat = el\<rparr>, None))"
  by (simp add: MatrixFromSlice_body_def through_def deref_def andThen_def)

text \<open>Started at an allocated matrix, the two nested constructors still disagree on
  the matrix \<open>[1, 1]\<close> over \<open>[0, 1]\<close>: \<open>MatrixFromRows\<close> reads \<open>el[j][i]\<close> with the row
  counter \<open>i\<close> in the place of the column.\<close>

lemma nested_bodies_disagree:
  "MatrixFromCols_body int32Ops Int32 [[Some 1, Some 0], [Some 1, Some 1]]
       (Some (zeroMatrix int32Ops))
     = Inr (Some \<lparr>mat_m = 2, mat_n = 2, mat_typ = Int32,
                  mat_dat = [Some 1, Some 1, Some 0, Some 1]\<rparr>, None)
   \<and> MatrixFromRows_body int32Ops Int32 [[Some 1, Some 1], [Some 0, Some 1]]
       (Some (zeroMatrix int32Ops))
     = Inr (Some \<lparr>mat_m = 2, mat_n = 2, mat_typ = Int32,
                  mat_dat = [Some 1, Some 0, Some 1, Some 1]\<rparr>, None)"
  by code_simp

subsection \<open>The bounds test of SetElement\<close>

lemma SetElement_rejects_iff:
  "(\<exists>mat'. SetElement ops mat i j el = Inr (Some ''Dimensions out of bounds'', mat'))
     \<longleftrightarrow> i <s mat_m mat \<or> j <s mat_n mat"
  by (auto simp: SetElement_def store_def andThen_def)

subsection \<open>Add and Sub: the sentinel, and the dimensions left at zero\<close>

lemma Add_mismatch:
  "mat_typ a \<noteq> mat_typ b \<or> len (mat_dat a) \<noteq> len (mat_dat b)
     \<Longrightarrow> Add ops a b = Inr (zeroMatrix ops)"
  by (simp add: Add_def)

lemma Sub_mismatch:
  "mat_typ a \<noteq> mat_typ b \<or> len (mat_dat a) \<noteq> len (mat_dat b)
     \<Longrightarrow> Sub ops a b = Inr (zeroMatrix ops)"
  by (simp add: Sub_def)

lemma Add_dimensions: "Add ops a b = Inr c \<Longrightarrow> mat_m c = 0 \<and> mat_n c = 0"
  by (auto simp: Add_def zeroMatrix_def andThen_def split: if_splits sum.splits)

lemma Sub_dimensions: "Sub ops a b = Inr c \<Longrightarrow> mat_m c = 0 \<and> mat_n c = 0"
  by (auto simp: Sub_def zeroMatrix_def andThen_def split: if_splits sum.splits)

subsection \<open>Mul and BatchMultiply on compatible operands\<close>

lemma Mul_compatible_panics:
  assumes "mat_n a = mat_m b" and "mat_typ a = mat_typ b"
  shows "\<exists>p. Mul ops a b = Inl p"
  using assms
  by (simp add: Mul_def unsafeMatrixFromSlice_nil andThen_def split: sum.splits)


lemma compatible_tl: "compatible (a # xs) \<Longrightarrow> compatible xs"
  by (cases xs) auto

lemma compatible_drop: "compatible xs \<Longrightarrow> compatible (drop k xs)"
proof (induction k arbitrary: xs)
  case 0
  then show ?case by simp
next
  case (Suc k)
  then show ?case by (cases xs) (auto dest: compatible_tl)
qed

lemma BatchMultiply_single: "BatchMultiply ops [a] = Inr a"
  by (simp add: BatchMultiply.simps index_def inRange_def)

lemma BatchMultiply_pair: "BatchMultiply ops [a, b] = Mul ops a b"
  by (simp add: BatchMultiply.simps index_def inRange_def andThen_def)

text \<open>On two or more matrices that are compatible in order, \<open>BatchMultiply\<close> panics:
  the right half of every split holds at least two of them.\<close>

lemma BatchMultiply_chain_panics:
  "2 \<le> length args \<Longrightarrow> compatible args \<Longrightarrow> \<exists>p. BatchMultiply ops args = Inl p"
proof (induction ops args rule: BatchMultiply.induct)
  case (1 ops args)
  show ?case
  proof (cases "2 < length args")
    case True
    let ?l = "take (length args div 2) args" and ?r = "drop (length args div 2) args"
    have ne: "length args \<noteq> 1" using True by simp
    show ?thesis
    proof (cases "BatchMultiply ops ?l")
      case (Inl p)
      then show ?thesis using True by (subst BatchMultiply.simps) simp
    next
      case (Inr m1)
      have "2 \<le> length ?r" using True by simp
      moreover have "compatible ?r" using "1.prems"(2) by (rule compatible_drop)
      ultimately obtain p where "BatchMultiply ops ?r = Inl p"
        using "1.IH"(2) [OF ne True Inr] by blast
      then show ?thesis using True Inr by (subst BatchMultiply.simps) simp
    qed
  next
    case False
    with "1.prems" have "length args = 2" by simp
    then obtain a b where "args = [a, b]"
      by (cases args; cases "tl args") auto
    with "1.prems" show ?thesis
      by (simp add: BatchMultiply_pair Mul_compatible_panics)
  qed
qed

lemma mulFrom_chain_panics:
  "compatible (a # b # rest) \<Longrightarrow> \<exists>p. mulFrom ops a (b # rest) = Inl p"
  using Mul_compatible_panics [of a b ops] by (auto simp: andThen_def)

section \<open>The claims\<close>

text \<open>
  C1. The claim: \<open>Mul\<close> of compatible matrices returns the \<open>a.rows x b.cols\<close> matrix of
  the sums of products, and the matrix \<open>[1, 1]\<close> over \<open>[0, 1]\<close> times itself is
  \<open>[1, 2]\<close> over \<open>[0, 1]\<close>. The code at the example: the first accumulation calls
  \<open>add\<close> on the nil slot of the fresh result slice, and the call panics.
\<close>

theorem Mul_shear_panics: "Mul int32Ops shear shear = Inl NilInterfaceCall"
  by code_simp

text \<open>The operands pass the check of \<open>Mul\<close>, and the product of the example is not
  what the call gives.\<close>

theorem Mul_shear_not_product:
  "mat_n shear = mat_m shear \<and> mat_typ shear = mat_typ shear
   \<and> Mul int32Ops shear shear
       \<noteq> Inr \<lparr>mat_m = 2, mat_n = 2, mat_typ = Int32,
               mat_dat = [Some 1, Some 2, Some 0, Some 1]\<rparr>"
  using Mul_shear_panics by (simp add: shear_def)

text \<open>
  C2. The claim: on a non-empty sequence of matrices compatible in order,
  \<open>BatchMultiply\<close> returns the matrix of the left-to-right product; one matrix is
  returned unchanged, two give \<open>Mul\<close> of them. The code: one matrix is returned
  unchanged, and on two copies of the example matrix the call panics in \<open>Mul\<close>
  and returns no matrix.
\<close>

theorem BatchMultiply_shear_panics:
  "BatchMultiply int32Ops [shear] = Inr shear
   \<and> BatchMultiply int32Ops [shear, shear] = Inl NilInterfaceCall"
  by code_simp

theorem BatchMultiply_shear_not_product:
  "compatible [shear, shear]
   \<and> BatchMultiply int32Ops [shear, shear]
       \<noteq> Inr \<lparr>mat_m = 2, mat_n = 2, mat_typ = Int32,
               mat_dat = [Some 1, Some 2, Some 0, Some 1]\<rparr>"
  using BatchMultiply_shear_panics by (simp add: shear_def)

text \<open>
  C3. Each of \<open>MatrixFromCols\<close>, \<open>MatrixFromRows\<close>, \<open>MatrixFromSlice\<close> and
  \<open>unsafeMatrixFromSlice\<close> assigns \<open>mat.typ\<close> through the nil named result before any
  validation: for every input the call panics with a nil-pointer dereference and returns
  neither a matrix nor an error value.
\<close>

theorem constructors_always_panic:
  "MatrixFromCols ops typ el = Inl NilPointerDereference
   \<and> MatrixFromRows ops typ el = Inl NilPointerDereference
   \<and> MatrixFromSlice ops typ dat m n = Inl NilPointerDereference
   \<and> unsafeMatrixFromSlice typ dat m n = Inl NilPointerDereference"
  by (simp add: MatrixFromCols_def MatrixFromCols_body_def MatrixFromRows_def
      MatrixFromRows_body_def MatrixFromSlice_def MatrixFromSlice_body_def
      unsafeMatrixFromSlice_def unsafeMatrixFromSlice_body_def
      through_nil andThen_panic)

text \<open>
  C4. The claim: \<open>SetElement\<close> fails with the out-of-bounds error exactly when \<open>i\<close> is
  outside \<open>[0, rows)\<close> or \<open>j\<close> outside \<open>[0, cols)\<close>, so also at \<open>i = rows\<close>,
  \<open>j = cols\<close>. The code on the 2 x 2 example matrix: the in-bounds position \<open>(0, 0)\<close>
  is refused with that error, and at \<open>(2, 2)\<close> the call returns no error but panics on
  the slice index.
\<close>

theorem SetElement_bounds_inverted:
  "SetElement int32Ops shear 0 0 (Some 5) = Inr (Some ''Dimensions out of bounds'', shear)
   \<and> SetElement int32Ops shear 2 2 (Some 5) = Inl IndexOutOfRange"
  by code_simp

text \<open>
  C5. The claim: \<open>MatrixFromSlice\<close> fails with a dimension error when
  \<open>len(data) \<noteq> m * n\<close>, with a type error on a mismatching element, and otherwise
  returns a matrix that satisfies the invariants. The code: it panics on well-formed
  data, and on data of the wrong length it panics too, where the claim has the
  dimension error.
\<close>

theorem MatrixFromSlice_panics:
  "MatrixFromSlice int32Ops Int32 [Some 1, Some 1, Some 0, Some 1] 2 2
     = Inl NilPointerDereference
   \<and> MatrixFromSlice int32Ops Int32 [Some 1] 2 2 = Inl NilPointerDereference"
  by code_simp

text \<open>
  C6. The claim: \<open>Add\<close> and \<open>Sub\<close> give the zero matrix on a mismatch and otherwise a
  matrix of the shape and type of the inputs with the pairwise sums or differences. The
  code on the 2 x 2 example matrix: type and data are as claimed, but the result has
  0 rows and 0 columns.
\<close>

theorem Add_Sub_lose_shape:
  "Add int32Ops shear shear
     = Inr \<lparr>mat_m = 0, mat_n = 0, mat_typ = Int32,
            mat_dat = [Some 2, Some 2, Some 0, Some 2]\<rparr>
   \<and> Sub int32Ops shear shear
     = Inr \<lparr>mat_m = 0, mat_n = 0, mat_typ = Int32,
            mat_dat = [Some 0, Some 0, Some 0, Some 0]\<rparr>"
  by code_simp

text \<open>The operands agree in type and length, and the 2 x 2 results of the claim are
  not returned.\<close>

theorem Add_Sub_lose_shape_witness:
  "mat_typ shear = mat_typ shear \<and> len (mat_dat shear) = len (mat_dat shear)
   \<and> Add int32Ops shear shear
       \<noteq> Inr \<lparr>mat_m = 2, mat_n = 2, mat_typ = Int32,
               mat_dat = [Some 2, Some 2, Some 0, Some 2]\<rparr>
   \<and> Sub int32Ops shear shear
       \<noteq> Inr \<lparr>mat_m = 2, mat_n = 2, mat_typ = Int32,
               mat_dat = [Some 0, Some 0, Some 0, Some 0]\<rparr>"
  using Add_Sub_lose_shape by (simp add: shear_def)

text \<open>
  C7. The claim: for matrices \<open>A\<close>, \<open>B\<close> of one shape and type, \<open>Sub (Add A B) B\<close> is
  \<open>A\<close>, shape included. The code with the example matrix for both: the data and the
  type come back, the shape does not.
\<close>

theorem Sub_Add_loses_shape:
  "andThen (Add int32Ops shear shear) (\<lambda>s. Sub int32Ops s shear)
     = Inr (shear\<lparr>mat_m := 0, mat_n := 0\<rparr>)
   \<and> shear\<lparr>mat_m := 0, mat_n := 0\<rparr> \<noteq> shear"
  by code_simp

theorem Sub_Add_loses_shape_witness:
  "andThen (Add int32Ops shear shear) (\<lambda>s. Sub int32Ops s shear) \<noteq> Inr shear"
  using Sub_Add_loses_shape by (simp add: shear_def)

text \<open>
  C8. The claim: \<open>MatrixFromCols\<close> on the columns of a matrix and \<open>MatrixFromRows\<close> on
  its rows produce identical matrices. The code on the columns and on the rows of
  \<open>[1, 1]\<close> over \<open>[0, 1]\<close>: both calls panic, and no matrix is produced.
\<close>

theorem MatrixFromCols_Rows_panic:
  "MatrixFromCols int32Ops Int32 [[Some 1, Some 0], [Some 1, Some 1]]
     = Inl NilPointerDereference
   \<and> MatrixFromRows int32Ops Int32 [[Some 1, Some 1], [Some 0, Some 1]]
     = Inl NilPointerDereference"
  by code_simp




text \<open>
  C10, as amended. Let the matrix have \<open>rows > 0\<close> and \<open>len(data) = rows * cols\<close> (as
  numbers). Every index pair with \<open>i < rows\<close> or \<open>j < cols\<close> is rejected by the bounds
  test. Every pair that passes the test and whose offset \<open>rows * j + i\<close> does not
  overflow the machine integer has its offset at or beyond \<open>len(data)\<close>: the call
  writes nothing, it reports a type mismatch or panics on the index.
\<close>

theorem SetElement_never_writes:
  assumes inv: "int (length (mat_dat mat)) = sint (mat_m mat) * sint (mat_n mat)"
      and rows: "0 <s mat_m mat"
  shows "(i <s mat_m mat \<or> j <s mat_n mat \<longrightarrow>
            SetElement ops mat i j el = Inr (Some ''Dimensions out of bounds'', mat))
       \<and> (\<not> (i <s mat_m mat \<or> j <s mat_n mat)
            \<and> sint (mat_m mat) * sint j + sint i < 2 ^ 63 \<longrightarrow>
            int (length (mat_dat mat)) \<le> sint (mat_m mat * j + i)
            \<and> (SetElement ops mat i j el = Inl IndexOutOfRange
               \<or> SetElement ops mat i j el
                    = Inr (Some ''Type of element does not match matrix's type'', mat)))"
proof (intro conjI impI)
  assume "i <s mat_m mat \<or> j <s mat_n mat"
  then show "SetElement ops mat i j el = Inr (Some ''Dimensions out of bounds'', mat)"
    by (simp add: SetElement_def)
next
  assume h: "\<not> (i <s mat_m mat \<or> j <s mat_n mat)
             \<and> sint (mat_m mat) * sint j + sint i < 2 ^ 63"
  let ?M = "sint (mat_m mat)" and ?N = "sint (mat_n mat)"
  have M: "0 < ?M" using rows by (simp add: word_sless_alt)
  have I: "?M \<le> sint i" and J: "?N \<le> sint j" using h by (simp_all add: word_sless_alt)
  have beyond: "int (length (mat_dat mat)) < ?M * sint j + sint i"
    using offset_beyond [OF M inv I J] .
  have "sint (mat_m mat * j + i) = ?M * sint j + sint i"
    using h beyond by (intro sint_mult_add) simp_all
  with beyond show "int (length (mat_dat mat)) \<le> sint (mat_m mat * j + i)" by simp
  then have "\<not> inRange (mat_dat mat) (mat_m mat * j + i)" by (simp add: inRange_def)
  with h show "SetElement ops mat i j el = Inl IndexOutOfRange
               \<or> SetElement ops mat i j el
                    = Inr (Some ''Type of element does not match matrix's type'', mat)"
    by (simp add: SetElement_def store_def andThen_def)
qed

text \<open>The theorem at the 2 x 2 example matrix and the pair \<open>(2, 2)\<close>, which passes the
  bounds test: the offset is 6, beyond the 4 elements.\<close>

theorem SetElement_never_writes_witness:
  "int (length (mat_dat shear)) = sint (mat_m shear) * sint (mat_n shear)
   \<and> 0 <s mat_m shear
   \<and> \<not> ((2 :: goint) <s mat_m shear \<or> (2 :: goint) <s mat_n shear)
   \<and> int (length (mat_dat shear)) \<le> sint (mat_m shear * 2 + 2)
   \<and> SetElement int32Ops shear 2 2 (Some 5) = Inl IndexOutOfRange"
  using SetElement_never_writes [of shear 2 2 int32Ops "Some 5"]
  by (simp add: shear_def int32Ops_def word_sless_alt SetElement_def store_def inRange_def
      andThen_def)

text \<open>
  The claim as stated fails where the offset wraps around: on the 2 x 2 example matrix
  the pair \<open>(2, 2^63 - 1)\<close> passes the bounds test, \<open>2 * (2^63 - 1) + 2\<close> is 0 in the
  machine integers, and the call overwrites \<open>dat[0]\<close>.
\<close>

theorem SetElement_wraparound_counterexample:
  "int (length (mat_dat shear)) = sint (mat_m shear) * sint (mat_n shear)
   \<and> 0 <s mat_m shear
   \<and> \<not> ((2 :: goint) <s mat_m shear)
   \<and> \<not> ((0x7FFFFFFFFFFFFFFF :: goint) <s mat_n shear)
   \<and> mat_m shear * 0x7FFFFFFFFFFFFFFF + 2 = 0
   \<and> SetElement int32Ops shear 2 0x7FFFFFFFFFFFFFFF (Some 5)
       = Inr (None, shear\<lparr>mat_dat := [Some 5, Some 1, Some 0, Some 1]\<rparr>)"
  by code_simp

end
